theory Spec2Isabelle
  imports Main
begin

section \<open>Data model of the Miniflux service (miniflux.ts)\<close>

text \<open>
  JavaScript numbers that hold identifiers, counts and HTTP status codes are modelled as
  \<open>int\<close>. An optional field (\<open>lastId?: number\<close>, \<open>serviceRef?: string\<close>) is an
  \<open>option\<close>; the truthiness tests of the source (\<open>if (continueId)\<close>,
  \<open>if (!item.serviceRef)\<close>) are written out: the number 0 and the empty string are
  falsy, like an absent value.
\<close>

datatype error = APIError | TypeError

record MinifluxConfigs =
  endpoint :: string
  apiKeyAuth :: bool
  authKey :: string
  fetchLimit :: int
  lastId :: "int option"

record Feed =
  feed_id :: int
  feed_url :: string
  feed_title :: string
  category_title :: string

datatype entry_status = Unread | Read | Removed

record Entry =
  entry_id :: int
  entry_status :: entry_status
  entry_title :: string
  entry_url :: string
  published_at :: "string option"
  created_at :: string
  entry_content :: string
  author :: string
  entry_starred :: bool
  feed :: Feed

record Entries =
  total :: int
  entries :: "Entry list"

text \<open>
  The local article record (\<open>RSSItem\<close>) with the fields that \<open>fetchItems\<close> fills in;
  dates are timestamps.
\<close>

record RSSItem =
  source :: int
  title :: string
  link :: string
  date :: int
  fetchedDate :: int
  content :: string
  snippet :: string
  creator :: string
  hasRead :: bool
  starred :: bool
  hidden :: bool
  notify :: bool
  serviceRef :: "string option"
  thumb :: "string option"

text \<open>The fields of \<open>RSSSource\<close> that the service reads; \<open>'r\<close> is the type of a rule.\<close>

record 'r RSSSource =
  sid :: int
  source_serviceRef :: "string option"
  rules :: "'r list option"

subsection \<open>Truthiness and number rendering\<close>

definition truthy_str :: "string option \<Rightarrow> bool" where
  "truthy_str s = (case s of None \<Rightarrow> False | Some t \<Rightarrow> t \<noteq> [])"

definition truthy_num :: "int option \<Rightarrow> bool" where
  "truthy_num n = (case n of None \<Rightarrow> False | Some k \<Rightarrow> k \<noteq> 0)"

text \<open>\<open>String(n)\<close> for an integer \<open>n\<close>: its decimal numeral, with a sign when negative.\<close>

definition digit :: "nat \<Rightarrow> char" where
  "digit d = ''0123456789'' ! d"

function digits :: "nat \<Rightarrow> string" where
  "digits n = (if n < 10 then [digit n] else digits (n div 10) @ [digit (n mod 10)])"
  by pat_completeness auto
termination
  by (relation "measure (\<lambda>n. n)") auto

declare digits.simps [simp del]

definition String_num :: "int \<Rightarrow> string" where
  "String_num n = (if n < 0 then CHR ''-'' # digits (nat (- n)) else digits (nat n))"

subsection \<open>URLSearchParams\<close>

text \<open>
  An ordered list of name/value pairs. \<open>set\<close> overwrites the first pair of that name and
  removes the others, or appends a pair when there is none; \<open>get\<close> reads the first one.
\<close>

type_synonym URLSearchParams = "(string \<times> string) list"

definition get_param :: "string \<Rightarrow> URLSearchParams \<Rightarrow> string option" where
  "get_param k ps = map_of ps k"

definition delete_param :: "string \<Rightarrow> URLSearchParams \<Rightarrow> URLSearchParams" where
  "delete_param k ps = filter (\<lambda>p. fst p \<noteq> k) ps"

fun set_param :: "string \<Rightarrow> string \<Rightarrow> URLSearchParams \<Rightarrow> URLSearchParams" where
  "set_param k v [] = [(k, v)]"
| "set_param k v (p # ps) =
     (if fst p = k then (k, v) # delete_param k ps else p # set_param k v ps)"

definition append_param :: "string \<Rightarrow> string \<Rightarrow> URLSearchParams \<Rightarrow> URLSearchParams" where
  "append_param k v ps = ps @ [(k, v)]"

subsection \<open>Transport\<close>

text \<open>
  A request as \<open>fetch\<close> receives it. The URL is kept in two parts: the text before the
  query string, and the query parameters themselves (what
  \<open>queryParams.toString()\<close> serialises and the server parses back).

  The platform's \<open>fetch\<close> is a parameter: it answers a request in a state \<open>'w\<close> of the
  outside world (the remote service, the network) with a new state and either a
  response or \<open>None\<close>, the rejection of the promise on a network-level failure. Of a
  response the service reads the status and the body decoded as an \<open>Entries\<close> object;
  \<open>json = None\<close> stands for a body that does not decode to one.
\<close>

record request =
  url :: string
  query :: URLSearchParams
  method' :: string
  body :: "string option"
  headers :: "(string \<times> string) list"

record Response =
  status :: int
  json :: "Entries option"

type_synonym 'w fetch = "request \<Rightarrow> 'w \<Rightarrow> Response option \<times> 'w"

definition endsWith :: "string \<Rightarrow> string \<Rightarrow> bool" where
  "endsWith s t = (length t \<le> length s \<and> drop (length s - length t) s = t)"

definition api_request ::
  "MinifluxConfigs \<Rightarrow> string \<Rightarrow> URLSearchParams \<Rightarrow> string \<Rightarrow> string option \<Rightarrow> request" where
  "api_request configs path qs meth bdy =
     (let hs = [(''content-type'', ''application/x-www-form-urlencoded'')];
          hs = hs @ [if apiKeyAuth configs then (''X-Auth-Token'', authKey configs)
                     else (''Authorization'', ''Basic '' @ authKey configs)];
          baseUrl = endpoint configs;
          baseUrl = (if \<not> endsWith baseUrl ''/'' then baseUrl @ ''/'' else baseUrl);
          baseUrl = (if \<not> endsWith baseUrl ''/v1/'' then baseUrl @ ''v1/'' else baseUrl)
      in \<lparr>url = baseUrl @ path, query = qs, method' = meth, body = bdy, headers = hs\<rparr>)"

text \<open>\<open>fetchAPI\<close>: a rejected \<open>fetch\<close> is logged and rethrown as \<open>APIError\<close>.\<close>

definition fetchAPI ::
  "'w fetch \<Rightarrow> MinifluxConfigs \<Rightarrow> string \<Rightarrow> URLSearchParams \<Rightarrow> string \<Rightarrow> string option \<Rightarrow>
     'w \<Rightarrow> (error + Response) \<times> 'w" where
  "fetchAPI fetch configs path qs meth bdy w =
     (case fetch (api_request configs path qs meth bdy) w of
        (None, w') \<Rightarrow> (Inl APIError, w')
      | (Some response, w') \<Rightarrow> (Inr response, w'))"

subsection \<open>Mutation commands on one item\<close>

definition dq :: char where
  "dq = CHR 0x22"

definition nl :: char where
  "nl = CHR 0x0A"

text \<open>The template literal of the request bodies, line by line; \<open>ind\<close> is the indentation
  of the statement that holds it (8 in \<open>markRead\<close> and \<open>markUnread\<close>, 12 in
  \<open>markAllRead\<close>).\<close>

definition status_body :: "nat \<Rightarrow> string \<Rightarrow> string \<Rightarrow> string" where
  "status_body ind refs st =
     ''{'' @ [nl] @
     replicate (ind + 4) CHR '' '' @ [dq] @ ''entry_ids'' @ [dq] @ '': ['' @ refs @ ''],'' @ [nl] @
     replicate (ind + 4) CHR '' '' @ [dq] @ ''status'' @ [dq] @ '': '' @ [dq] @ st @ [dq] @ [nl] @
     replicate ind CHR '' '' @ ''}''"

definition markRead :: "'w fetch \<Rightarrow> MinifluxConfigs \<Rightarrow> RSSItem \<Rightarrow> 'w \<Rightarrow> (error + unit) \<times> 'w" where
  "markRead fetch configs item w =
     (if \<not> truthy_str (serviceRef item) then (Inr (), w)
      else case serviceRef item of
        None \<Rightarrow> (Inr (), w)
      | Some ref \<Rightarrow>
          (case fetchAPI fetch configs ''entries'' [] ''PUT'' (Some (status_body 8 ref ''read'')) w of
             (Inl e, w') \<Rightarrow> (Inl e, w')
           | (Inr response, w') \<Rightarrow>
               if status response \<noteq> 204 then (Inl APIError, w') else (Inr (), w')))"

definition markUnread :: "'w fetch \<Rightarrow> MinifluxConfigs \<Rightarrow> RSSItem \<Rightarrow> 'w \<Rightarrow> (error + unit) \<times> 'w" where
  "markUnread fetch configs item w =
     (if \<not> truthy_str (serviceRef item) then (Inr (), w)
      else case serviceRef item of
        None \<Rightarrow> (Inr (), w)
      | Some ref \<Rightarrow>
          (case fetchAPI fetch configs ''entries'' [] ''PUT'' (Some (status_body 8 ref ''unread'')) w of
             (Inl e, w') \<Rightarrow> (Inl e, w')
           | (Inr response, w') \<Rightarrow> (Inr (), w')))"

definition star :: "'w fetch \<Rightarrow> MinifluxConfigs \<Rightarrow> RSSItem \<Rightarrow> 'w \<Rightarrow> (error + unit) \<times> 'w" where
  "star fetch configs item w =
     (if \<not> truthy_str (serviceRef item) then (Inr (), w)
      else case serviceRef item of
        None \<Rightarrow> (Inr (), w)
      | Some ref \<Rightarrow>
          (case fetchAPI fetch configs (''entries/'' @ ref @ ''/bookmark'') [] ''PUT'' None w of
             (Inl e, w') \<Rightarrow> (Inl e, w')
           | (Inr response, w') \<Rightarrow> (Inr (), w')))"

definition unstar :: "'w fetch \<Rightarrow> MinifluxConfigs \<Rightarrow> RSSItem \<Rightarrow> 'w \<Rightarrow> (error + unit) \<times> 'w" where
  "unstar fetch configs item w =
     (if \<not> truthy_str (serviceRef item) then (Inr (), w)
      else case serviceRef item of
        None \<Rightarrow> (Inr (), w)
      | Some ref \<Rightarrow>
          (case fetchAPI fetch configs (''entries/'' @ ref @ ''/bookmark'') [] ''PUT'' None w of
             (Inl e, w') \<Rightarrow> (Inl e, w')
           | (Inr response, w') \<Rightarrow> (Inr (), w')))"

subsection \<open>The paginated entry fetcher\<close>

text \<open>
  The query of the next page: \<open>before_entry_id\<close> when \<open>continueId\<close> is truthy,
  otherwise \<open>after_entry_id\<close> in a \<open>fetchNew\<close> call.
\<close>

definition String_opt :: "int option \<Rightarrow> string" where
  "String_opt n = (case n of None \<Rightarrow> ''undefined'' | Some k \<Rightarrow> String_num k)"

definition next_params ::
  "MinifluxConfigs \<Rightarrow> bool \<Rightarrow> URLSearchParams \<Rightarrow> int option \<Rightarrow> URLSearchParams" where
  "next_params configs fetchNew queryParams continueId =
     (if truthy_num continueId
      then set_param ''before_entry_id'' (String_opt continueId) queryParams
      else if fetchNew
      then set_param ''after_entry_id'' (String_opt (lastId configs)) queryParams
      else queryParams)"

text \<open>
  The \<open>do ... while\<close> loop of \<open>fetchEntries\<close>. One call is one run of the body followed
  by the test. A rejected request, a body that does not decode and an empty page leave
  the loop (\<open>break\<close>) with what was accumulated. \<open>limit\<close> is the parameter
  \<open>fetchLimit\<close> of \<open>fetchEntries\<close> (the page size), as opposed to the field
  \<open>fetchLimit\<close> of the configuration (the overall cap).
\<close>

function fetchEntries_loop ::
  "'w fetch \<Rightarrow> MinifluxConfigs \<Rightarrow> bool \<Rightarrow> int \<Rightarrow> URLSearchParams \<Rightarrow> int option \<Rightarrow>
     Entry list \<Rightarrow> 'w \<Rightarrow> Entry list \<times> URLSearchParams \<times> 'w" where
  "fetchEntries_loop fetch configs fetchNew limit queryParams continueId items w =
     (let queryParams = next_params configs fetchNew queryParams continueId in
      case fetchAPI fetch configs ''entries'' queryParams ''GET'' None w of
        (Inl e, w) \<Rightarrow> (items, queryParams, w)
      | (Inr response, w) \<Rightarrow>
          (case json response of
             None \<Rightarrow> (items, queryParams, w)
           | Some entriesResponse \<Rightarrow>
               if entries entriesResponse = [] then (items, queryParams, w)
               else
                 let items = items @ entries entriesResponse;
                     continueId =
                       (if fetchNew then Some (entry_id (last items))
                        else Some (entry_id (last (entries entriesResponse))))
                 in if total entriesResponse \<ge> limit \<and> int (length items) < fetchLimit configs
                    then fetchEntries_loop fetch configs fetchNew limit queryParams continueId items w
                    else (items, queryParams, w)))"
  by pat_completeness auto
termination
  by (relation "measure (\<lambda>(fetch, configs, fetchNew, limit, queryParams, continueId, items, w).
        nat (fetchLimit configs - int (length items)))") auto

declare fetchEntries_loop.simps [simp del]

definition fetchEntries ::
  "'w fetch \<Rightarrow> MinifluxConfigs \<Rightarrow> URLSearchParams \<Rightarrow> bool \<Rightarrow> int \<Rightarrow> 'w \<Rightarrow>
     Entry list \<times> MinifluxConfigs \<times> URLSearchParams \<times> 'w" where
  "fetchEntries fetch configs queryParams fetchNew limit w =
     (let configs = configs\<lparr>lastId := Some (case lastId configs of None \<Rightarrow> 0 | Some l \<Rightarrow> l)\<rparr>;
          queryParams = set_param ''limit'' (String_num limit) queryParams;
          (items, queryParams, w) =
             fetchEntries_loop fetch configs fetchNew limit queryParams None [] w
      in (items, configs, queryParams, w))"

subsection \<open>Fetching new items\<close>

text \<open>
  What \<open>fetchItems\<close> takes from outside this file: the rule engine
  (\<open>SourceRule.applyAll\<close>, which rewrites the item), \<open>htmlDecode\<close> followed by
  \<open>trim\<close>, the \<open>Date\<close> constructor on a text and on nothing (the current time),
  the origin of a URL (\<open>None\<close> when \<open>new URL\<close> throws), and the \<open>src\<close> of the first
  \<open>img\<close> element of a document parsed with a given base.
\<close>

record 'r env =
  applyAll :: "'r list \<Rightarrow> RSSItem \<Rightarrow> RSSItem"
  decode_trim :: "string \<Rightarrow> string"
  new_Date :: "string \<Rightarrow> int"
  now :: int
  origin :: "string \<Rightarrow> string option"
  img_src :: "string \<Rightarrow> string \<Rightarrow> string option"

text \<open>
  A call of one of the service's commands on an item, as \<open>fetchItems\<close> makes it for a
  rule's decision. The command is called but the function it returns is neither
  dispatched nor awaited there, so the call does not touch the outside world; the model
  returns the calls in the order they are made.
\<close>

datatype hook_call = MarkRead RSSItem | MarkUnread RSSItem | Star RSSItem | Unstar RSSItem

definition sourceMap_of :: "'r RSSSource list \<Rightarrow> (string \<rightharpoonup> 'r RSSSource)" where
  "sourceMap_of srcs =
     fold (\<lambda>src m. case source_serviceRef src of
                      None \<Rightarrow> m
                    | Some ref \<Rightarrow> if ref \<noteq> [] then m(ref \<mapsto> src) else m) srcs Map.empty"

definition rule_calls :: "Entry \<Rightarrow> RSSItem \<Rightarrow> hook_call list" where
  "rule_calls item parsedItem =
     (if (entry_status item = Read) \<noteq> hasRead parsedItem then [MarkRead parsedItem] else []) @
     (if entry_starred item \<noteq> starred parsedItem then [MarkUnread parsedItem] else [])"

definition parseItem ::
  "'r env \<Rightarrow> (string \<rightharpoonup> 'r RSSSource) \<Rightarrow> Entry \<Rightarrow> error + RSSItem \<times> hook_call list" where
  "parseItem env sourceMap item =
     (case sourceMap (String_num (feed_id (feed item))) of
        None \<Rightarrow> Inl TypeError
      | Some src \<Rightarrow>
          (let parsedItem =
                \<lparr>source = sid src, title = entry_title item, link = entry_url item,
                 date = new_Date env
                   (case published_at item of None \<Rightarrow> created_at item | Some p \<Rightarrow> p),
                 fetchedDate = now env, content = entry_content item,
                 snippet = decode_trim env (entry_content item), creator = author item,
                 hasRead = (entry_status item = Read), starred = entry_starred item,
                 hidden = False, notify = False,
                 serviceRef = Some (String_num (entry_id item)), thumb = None\<rparr>
           in (case origin env (link parsedItem) of
                 None \<Rightarrow> Inl TypeError
               | Some base \<Rightarrow>
                   (let parsedItem =
                         (if truthy_str (img_src env (entry_content item) base)
                          then parsedItem\<lparr>thumb := img_src env (entry_content item) base\<rparr>
                          else parsedItem)
                    in (case rules src of
                          None \<Rightarrow> Inr (parsedItem, [])
                        | Some rs \<Rightarrow>
                            (let parsedItem = applyAll env rs parsedItem
                             in Inr (parsedItem, rule_calls item parsedItem)))))))"

text \<open>\<open>items.map\<close> with a callback that may throw: the first throw ends the map.\<close>

fun map_items ::
  "(Entry \<Rightarrow> error + RSSItem \<times> hook_call list) \<Rightarrow> Entry list \<Rightarrow>
     error + RSSItem list \<times> hook_call list" where
  "map_items f [] = Inr ([], [])"
| "map_items f (x # xs) =
     (case f x of
        Inl e \<Rightarrow> Inl e
      | Inr (y, cs) \<Rightarrow>
          (case map_items f xs of
             Inl e \<Rightarrow> Inl e
           | Inr (ys, ds) \<Rightarrow> Inr (y # ys, cs @ ds)))"

text \<open>
  \<open>fetchItems\<close> returns the mapped items with the configuration; the configuration
  object is the one of the application state, updated in place, so the model returns
  it also when the mapping throws.
\<close>

definition fetchItems ::
  "'w fetch \<Rightarrow> 'r env \<Rightarrow> 'r RSSSource list \<Rightarrow> MinifluxConfigs \<Rightarrow> 'w \<Rightarrow>
     (error + RSSItem list \<times> hook_call list) \<times> MinifluxConfigs \<times> 'w" where
  "fetchItems fetch env srcs configs w =
     (let queryParams = [(''order'', ''id''), (''direction'', ''desc'')];
          (items, configs, queryParams, w) = fetchEntries fetch configs queryParams True 125 w
      in case items of
           [] \<Rightarrow> (Inr ([], []), configs, w)
         | first # rest \<Rightarrow>
             let configs = configs\<lparr>lastId := Some (entry_id first)\<rparr>;
                 sourceMap = sourceMap_of srcs
             in (map_items (parseItem env sourceMap) items, configs, w))"

subsection \<open>Remote read and star state\<close>

definition syncItems ::
  "'w fetch \<Rightarrow> MinifluxConfigs \<Rightarrow> 'w \<Rightarrow> (string set \<times> string set) \<times> MinifluxConfigs \<times> 'w" where
  "syncItems fetch configs w =
     (let queryParams = [(''status'', ''unread''), (''order'', ''id''), (''direction'', ''desc'')];
          (unreadItems, configs, queryParams, w) =
             fetchEntries fetch configs queryParams False 125 w;
          queryParams = delete_param ''status'' queryParams;
          queryParams = delete_param ''before_entry_id'' queryParams;
          queryParams = append_param ''starred'' ''true'' queryParams;
          (starredItems, configs, queryParams, w) =
             fetchEntries fetch configs queryParams False 125 w
      in ((set (map (\<lambda>entry. String_num (entry_id entry)) unreadItems),
           set (map (\<lambda>entry. String_num (entry_id entry)) starredItems)), configs, w))"

subsection \<open>Marking all items of some sources as read\<close>

text \<open>
  The local store is the list of the rows of the items table, in the order in which the
  database scans them: the query has no \<open>orderBy\<close>, so its answer keeps that order.
  The query is the conjunction of the four predicates, and selects the \<open>serviceRef\<close>
  column. An array in a template literal is rendered with commas between its elements.
\<close>

fun join_refs :: "string option list \<Rightarrow> string" where
  "join_refs [] = []"
| "join_refs [r] = (case r of None \<Rightarrow> [] | Some s \<Rightarrow> s)"
| "join_refs (r # rs) = (case r of None \<Rightarrow> [] | Some s \<Rightarrow> s) @ '','' @ join_refs rs"

definition date_predicates :: "int list \<Rightarrow> int \<Rightarrow> bool \<Rightarrow> (RSSItem \<Rightarrow> bool) list" where
  "date_predicates sids d before =
     [\<lambda>row. source row \<in> set sids,
      \<lambda>row. hasRead row = False,
      \<lambda>row. serviceRef row \<noteq> None,
      if before then (\<lambda>row. date row \<le> d) else (\<lambda>row. date row \<ge> d)]"

definition select_refs :: "RSSItem list \<Rightarrow> (RSSItem \<Rightarrow> bool) list \<Rightarrow> string option list" where
  "select_refs store predicates =
     map serviceRef (filter (\<lambda>row. list_all (\<lambda>p. p row) predicates) store)"

text \<open>
  Without a date, one request per source id. All the requests are started before any
  is awaited; \<open>Promise.all\<close> rejects when one of them does.
\<close>

fun mark_feeds ::
  "'w fetch \<Rightarrow> MinifluxConfigs \<Rightarrow> (int \<rightharpoonup> 'r RSSSource) \<Rightarrow> int list \<Rightarrow> 'w \<Rightarrow>
     (error + unit) \<times> 'w" where
  "mark_feeds fetch configs sources [] w = (Inr (), w)"
| "mark_feeds fetch configs sources (s # sids) w =
     (let ref = (case sources s of
                   None \<Rightarrow> ''undefined''
                 | Some src \<Rightarrow>
                     (case source_serviceRef src of None \<Rightarrow> ''undefined'' | Some r \<Rightarrow> r));
          (r1, w) = fetchAPI fetch configs (''feeds/'' @ ref @ ''/mark-all-as-read'') []
                      ''PUT'' None w;
          (r2, w) = mark_feeds fetch configs sources sids w
      in (case r1 of Inl e \<Rightarrow> (Inl e, w) | Inr response \<Rightarrow> (r2, w)))"

definition markAllRead ::
  "'w fetch \<Rightarrow> (int \<rightharpoonup> 'r RSSSource) \<Rightarrow> RSSItem list \<Rightarrow> MinifluxConfigs \<Rightarrow> int list \<Rightarrow>
     int option \<Rightarrow> bool \<Rightarrow> 'w \<Rightarrow> (error + unit) \<times> 'w" where
  "markAllRead fetch sources store configs sids date_opt before w =
     (case date_opt of
        Some d \<Rightarrow>
          (let refs = select_refs store (date_predicates sids d before);
               bdy = status_body 12 (join_refs refs) ''read''
           in case fetchAPI fetch configs ''entries'' [] ''PUT'' (Some bdy) w of
                (Inl e, w') \<Rightarrow> (Inl e, w')
              | (Inr response, w') \<Rightarrow> (Inr (), w'))
      | None \<Rightarrow> mark_feeds fetch configs sources sids w)"

section \<open>Vocabulary of the statements\<close>

text \<open>
  The page and the total that \<open>fetchEntries\<close> reads from the outcome of a request; a
  failed request and a body that does not decode give no entries.
\<close>

definition page_of :: "Response option \<Rightarrow> Entry list" where
  "page_of r =
     (case r of
        None \<Rightarrow> []
      | Some response \<Rightarrow> (case json response of None \<Rightarrow> [] | Some es \<Rightarrow> entries es))"

definition total_of :: "Response option \<Rightarrow> int" where
  "total_of r =
     (case r of
        None \<Rightarrow> 0
      | Some response \<Rightarrow> (case json response of None \<Rightarrow> 0 | Some es \<Rightarrow> total es))"

text \<open>
  What a well-behaved remote service does with the query parameters: a page has at most
  \<open>limit\<close> entries, only entries with an id above \<open>after_entry_id\<close> and below
  \<open>before_entry_id\<close>, the newest (greatest id) first.
\<close>

definition honours_limit :: "'w fetch \<Rightarrow> bool" where
  "honours_limit fetch =
     (\<forall>req w n. get_param ''limit'' (query req) = Some (String_num n) \<longrightarrow>
        page_of (fst (fetch req w)) = [] \<or> int (length (page_of (fst (fetch req w)))) \<le> n)"

definition honours_after :: "'w fetch \<Rightarrow> bool" where
  "honours_after fetch =
     (\<forall>req w n. get_param ''after_entry_id'' (query req) = Some (String_num n) \<longrightarrow>
        (\<forall>e \<in> set (page_of (fst (fetch req w))). n < entry_id e))"



text \<open>
  The cursor as the code reads it (\<open>configs.lastId ?? 0\<close>), the configuration after
  the first statement of \<open>fetchEntries\<close>, and the query with which \<open>fetchItems\<close> calls
  it.
\<close>

definition cursor :: "MinifluxConfigs \<Rightarrow> int" where
  "cursor configs = (case lastId configs of None \<Rightarrow> 0 | Some l \<Rightarrow> l)"

definition normalised :: "MinifluxConfigs \<Rightarrow> MinifluxConfigs" where
  "normalised configs = configs\<lparr>lastId := Some (cursor configs)\<rparr>"

definition new_items_query :: URLSearchParams where
  "new_items_query = [(''order'', ''id''), (''direction'', ''desc'')]"

text \<open>
  The entry ids of a bulk request as the specification words them: the \<open>serviceRef\<close>s
  of the stored items that belong to the given sources, are unread, have a \<open>serviceRef\<close>
  and are dated at or before the boundary.
\<close>

definition boundary_refs :: "RSSItem list \<Rightarrow> int list \<Rightarrow> int \<Rightarrow> string list" where
  "boundary_refs store sids d =
     List.map_filter
       (\<lambda>row. if source row \<in> set sids \<and> \<not> hasRead row \<and> date row \<le> d
              then serviceRef row else None) store"

text \<open>A list of ids as it is written in a JSON array: with commas between them.\<close>

fun comma_separated :: "string list \<Rightarrow> string" where
  "comma_separated [] = []"
| "comma_separated [x] = x"
| "comma_separated (x # y # ys) = x @ '','' @ comma_separated (y # ys)"

section \<open>Sample inputs\<close>

text \<open>
  Concrete inputs on which the theorems below are evaluated: a transport whose every
  call fails, and one that answers every request with a fixed status and keeps a record
  of the requests it received.
\<close>

definition offline :: "unit fetch" where
  "offline r w = (None, w)"

definition recording :: "int \<Rightarrow> request list fetch" where
  "recording st r log = (Some \<lparr>status = st, json = None\<rparr>, log @ [r])"

definition sample_configs :: MinifluxConfigs where
  "sample_configs =
     \<lparr>endpoint = ''https://rss.example'', apiKeyAuth = True, authKey = ''k'',
      fetchLimit = 5, lastId = None\<rparr>"

definition sample_item :: "string option \<Rightarrow> RSSItem" where
  "sample_item ref =
     \<lparr>source = 1, title = ''t'', link = ''https://site.example/post'', date = 10,
      fetchedDate = 20, content = ''c'', snippet = ''c'', creator = ''a'', hasRead = False,
      starred = False, hidden = False, notify = False, serviceRef = ref, thumb = None\<rparr>"

definition bookmark_request :: request where
  "bookmark_request =
     \<lparr>url = ''https://rss.example/v1/entries/7/bookmark'', query = [], method' = ''PUT'',
      body = None,
      headers = [(''content-type'', ''application/x-www-form-urlencoded''),
                 (''X-Auth-Token'', ''k'')]\<rparr>"

text \<open>
  A remote service that keeps its entries newest first, reads the numbers of the query
  back, answers with the matching entries up to the limit and with their count, and
  keeps a record of the requests it received.
\<close>

definition digit_value :: "char \<Rightarrow> nat" where
  "digit_value c = of_char c - 48"

definition nat_of_digits :: "string \<Rightarrow> nat" where
  "nat_of_digits s = foldl (\<lambda>a c. 10 * a + digit_value c) 0 s"

definition num_of :: "string \<Rightarrow> int" where
  "num_of s =
     (case s of
        [] \<Rightarrow> 0
      | c # r \<Rightarrow> if c = CHR ''-'' then - int (nat_of_digits r) else int (nat_of_digits s))"

definition matches :: "URLSearchParams \<Rightarrow> Entry \<Rightarrow> bool" where
  "matches qs e =
     ((case get_param ''after_entry_id'' qs of None \<Rightarrow> True | Some s \<Rightarrow> num_of s < entry_id e) \<and>
      (case get_param ''before_entry_id'' qs of None \<Rightarrow> True | Some s \<Rightarrow> entry_id e < num_of s))"

definition remote :: "Entry list \<Rightarrow> request list fetch" where
  "remote ds req log =
     (let found = filter (matches (query req)) ds;
          n = (case get_param ''limit'' (query req) of None \<Rightarrow> 100 | Some s \<Rightarrow> nat (num_of s))
      in (Some \<lparr>status = 200, json = Some \<lparr>total = int (length found), entries = take n found\<rparr>\<rparr>,
          log @ [req]))"

definition sample_entry :: "int \<Rightarrow> Entry" where
  "sample_entry n =
     \<lparr>entry_id = n, entry_status = Unread, entry_title = ''t'',
      entry_url = ''https://site.example/post'', published_at = None, created_at = ''d'',
      entry_content = ''c'', author = ''a'', entry_starred = False,
      feed = \<lparr>feed_id = 1, feed_url = ''u'', feed_title = ''f'', category_title = ''g''\<rparr>\<rparr>"

definition sample_feed :: "Entry list" where
  "sample_feed = map sample_entry [9, 8, 7, 6, 5, 4, 3, 2, 1]"


text \<open>A source with one rule, and a rule engine whose rules star the item.\<close>

definition sample_source :: "unit RSSSource" where
  "sample_source = \<lparr>sid = 1, source_serviceRef = Some ''1'', rules = Some [()]\<rparr>"

definition sample_env :: "unit env" where
  "sample_env =
     \<lparr>applyAll = (\<lambda>rs item. item\<lparr>starred := True\<rparr>), decode_trim = (\<lambda>s. s),
      new_Date = (\<lambda>s. 10), now = 20, origin = (\<lambda>s. Some ''https://site.example''),
      img_src = (\<lambda>c b. None)\<rparr>"

definition sample_store :: "RSSItem list" where
  "sample_store =
     [sample_item (Some ''11''),
      (sample_item (Some ''12''))\<lparr>date := 11\<rparr>,
      (sample_item (Some ''13''))\<lparr>hasRead := True\<rparr>,
      (sample_item (Some ''14''))\<lparr>source := 2\<rparr>,
      sample_item None,
      (sample_item (Some ''16''))\<lparr>date := 9\<rparr>]"

section \<open>Properties of the mutation commands\<close>

lemmas sample_defs =
  offline_def recording_def sample_configs_def sample_item_def bookmark_request_def
  api_request_def endsWith_def fetchAPI_def truthy_str_def

text \<open>
  C8. For an item whose \<open>serviceRef\<close> is absent, each of \<open>markRead\<close>,
  \<open>markUnread\<close>, \<open>star\<close> and \<open>unstar\<close> returns normally and leaves the outside
  world as it was, whatever the transport is: \<open>fetch\<close> is not called, so no request is
  issued.
\<close>

theorem absent_serviceRef_noop:
  assumes "serviceRef item = None"
  shows "markRead fetch configs item w = (Inr (), w) \<and>
         markUnread fetch configs item w = (Inr (), w) \<and>
         star fetch configs item w = (Inr (), w) \<and>
         unstar fetch configs item w = (Inr (), w)"
  using assms by (simp add: markRead_def markUnread_def star_def unstar_def truthy_str_def)

theorem absent_serviceRef_noop_witness:
  "serviceRef (sample_item None) = None \<and>
   markRead (recording 500) sample_configs (sample_item None) [] = (Inr (), []) \<and>
   markUnread (recording 500) sample_configs (sample_item None) [] = (Inr (), []) \<and>
   star (recording 500) sample_configs (sample_item None) [] = (Inr (), []) \<and>
   unstar (recording 500) sample_configs (sample_item None) [] = (Inr (), [])"
proof -
  have h: "serviceRef (sample_item None) = None"
    by (simp add: sample_item_def)
  show ?thesis
    using h absent_serviceRef_noop [OF h, of "recording 500" sample_configs "[]"] by simp
qed

text \<open>
  C10. For an item with a \<open>serviceRef\<close>, \<open>star\<close> and \<open>unstar\<close> are the same
  function of the transport, the configuration and the outside world: both issue the
  one request \<open>PUT entries/{serviceRef}/bookmark\<close> with no body, and return normally
  unless the transport fails.
\<close>

theorem star_unstar_same_request:
  assumes "serviceRef item = Some ref" and "ref \<noteq> []"
  shows "star fetch configs item w = unstar fetch configs item w \<and>
         star fetch configs item w =
           (case fetch (api_request configs (''entries/'' @ ref @ ''/bookmark'') [] ''PUT'' None) w of
              (None, w') \<Rightarrow> (Inl APIError, w')
            | (Some response, w') \<Rightarrow> (Inr (), w'))"
  using assms
  by (simp add: star_def unstar_def truthy_str_def fetchAPI_def split: prod.splits option.splits)

theorem star_unstar_same_request_witness:
  "serviceRef (sample_item (Some ''7'')) = Some ''7'' \<and>
   star (recording 204) sample_configs (sample_item (Some ''7'')) [] =
     unstar (recording 204) sample_configs (sample_item (Some ''7'')) [] \<and>
   star (recording 204) sample_configs (sample_item (Some ''7'')) [] =
     (Inr (), [bookmark_request])"
proof -
  have h: "serviceRef (sample_item (Some ''7'')) = Some ''7''"
    by (simp add: sample_item_def)
  have n: "''7'' \<noteq> []"
    by simp
  have r: "recording 204
       (api_request sample_configs (''entries/'' @ ''7'' @ ''/bookmark'') [] ''PUT'' None) [] =
       (Some \<lparr>status = 204, json = None\<rparr>, [bookmark_request])"
    by (simp add: sample_defs)
  note t = star_unstar_same_request [OF h n, of "recording 204" sample_configs "[]", unfolded r]
  from t have "star (recording 204) sample_configs (sample_item (Some ''7'')) [] =
          unstar (recording 204) sample_configs (sample_item (Some ''7'')) []"
    by (rule conjunct1)
  moreover from t [THEN conjunct2]
  have "star (recording 204) sample_configs (sample_item (Some ''7'')) [] =
          (Inr (), [bookmark_request])"
    by simp
  ultimately show ?thesis using h
    by (intro conjI)
qed

text \<open>
  C5, as the code has it. \<open>markUnread\<close>, \<open>star\<close> and \<open>unstar\<close> do not look at the
  response: whatever its status, they return normally. A failure of the transport call
  itself is not caught: \<open>fetchAPI\<close> rethrows it as \<open>APIError\<close> and the command raises
  it to its caller.
\<close>

theorem best_effort_commands:
  assumes "serviceRef item = Some ref" and "ref \<noteq> []"
  shows "fst (markUnread fetch configs item w) =
           (if fst (fetch (api_request configs ''entries'' [] ''PUT''
                      (Some (status_body 8 ref ''unread''))) w) = None
            then Inl APIError else Inr ()) \<and>
         fst (star fetch configs item w) =
           (if fst (fetch (api_request configs (''entries/'' @ ref @ ''/bookmark'') []
                      ''PUT'' None) w) = None
            then Inl APIError else Inr ()) \<and>
         fst (unstar fetch configs item w) =
           (if fst (fetch (api_request configs (''entries/'' @ ref @ ''/bookmark'') []
                      ''PUT'' None) w) = None
            then Inl APIError else Inr ())"
  using assms
  by (simp add: markUnread_def star_def unstar_def truthy_str_def fetchAPI_def
      split: prod.splits option.splits)

theorem best_effort_commands_witness:
  "serviceRef (sample_item (Some ''7'')) = Some ''7'' \<and>
   fst (markUnread (recording 500) sample_configs (sample_item (Some ''7'')) []) = Inr () \<and>
   fst (star (recording 500) sample_configs (sample_item (Some ''7'')) []) = Inr () \<and>
   fst (unstar (recording 500) sample_configs (sample_item (Some ''7'')) []) = Inr ()"
proof -
  have h: "serviceRef (sample_item (Some ''7'')) = Some ''7''"
    by (simp add: sample_item_def)
  have n: "''7'' \<noteq> []"
    by simp
  show ?thesis
    using h best_effort_commands [OF h n, of "recording 500" sample_configs "[]"]
    by (simp add: recording_def)
qed

text \<open>
  The claim C5 as it is written fails when the network is down: each of the three
  commands raises \<open>APIError\<close>.
\<close>

theorem best_effort_commands_raise:
  "fst (markUnread offline sample_configs (sample_item (Some ''7'')) ()) = Inl APIError \<and>
   fst (star offline sample_configs (sample_item (Some ''7'')) ()) = Inl APIError \<and>
   fst (unstar offline sample_configs (sample_item (Some ''7'')) ()) = Inl APIError"
  by (simp add: markUnread_def star_def unstar_def sample_defs)

text \<open>
  C7. For an item with a \<open>serviceRef\<close>, \<open>markRead\<close> raises \<open>APIError\<close> (the service
  failure) exactly when the transport call fails or the response status is not 204, and
  returns normally on a 204.
\<close>

theorem markRead_strict:
  assumes "serviceRef item = Some ref" and "ref \<noteq> []"
  shows "fst (markRead fetch configs item w) =
           (case fst (fetch (api_request configs ''entries'' [] ''PUT''
                       (Some (status_body 8 ref ''read''))) w) of
              None \<Rightarrow> Inl APIError
            | Some response \<Rightarrow> if status response = 204 then Inr () else Inl APIError)"
  using assms
  by (simp add: markRead_def truthy_str_def fetchAPI_def split: prod.splits option.splits)

theorem markRead_strict_witness:
  "serviceRef (sample_item (Some ''7'')) = Some ''7'' \<and>
   fst (markRead (recording 204) sample_configs (sample_item (Some ''7'')) []) = Inr () \<and>
   fst (markRead (recording 500) sample_configs (sample_item (Some ''7'')) []) = Inl APIError \<and>
   fst (markRead offline sample_configs (sample_item (Some ''7'')) ()) = Inl APIError"
proof -
  have h: "serviceRef (sample_item (Some ''7'')) = Some ''7''"
    by (simp add: sample_item_def)
  have n: "''7'' \<noteq> []"
    by simp
  show ?thesis
    using h markRead_strict [OF h n, of "recording 204" sample_configs "[]"]
      markRead_strict [OF h n, of "recording 500" sample_configs "[]"]
      markRead_strict [OF h n, of offline sample_configs "()"]
    by (simp add: recording_def offline_def)
qed

section \<open>Properties of the paginated entry fetcher\<close>

subsection \<open>Query parameters, one run of the loop body, induction over the loop\<close>

lemma get_delete_param:
  "get_param k' (delete_param k ps) = (if k' = k then None else get_param k' ps)"
  by (induction ps) (auto simp: get_param_def delete_param_def)

lemma get_set_param:
  "get_param k' (set_param k v ps) = (if k' = k then Some v else get_param k' ps)"
proof (induction ps)
  case Nil
  then show ?case by (simp add: get_param_def)
next
  case (Cons p ps)
  then show ?case
    using get_delete_param [of k' k ps]
    by (cases p) (auto simp: get_param_def)
qed

lemma query_api_request [simp]: "query (api_request configs path qs meth bdy) = qs"
  by (simp add: api_request_def Let_def)

lemma loop_unfold:
  "fetchEntries_loop fetch configs fetchNew limit qp cid items w =
     (let qp1 = next_params configs fetchNew qp cid;
          rw = fetch (api_request configs ''entries'' qp1 ''GET'' None) w;
          page = page_of (fst rw)
      in if page = [] then (items, qp1, snd rw)
         else if limit \<le> total_of (fst rw) \<and> int (length (items @ page)) < fetchLimit configs
         then fetchEntries_loop fetch configs fetchNew limit qp1
                (Some (entry_id (last page))) (items @ page) (snd rw)
         else (items @ page, qp1, snd rw))"
  by (subst fetchEntries_loop.simps)
     (auto simp: fetchAPI_def page_of_def total_of_def Let_def split: prod.splits option.splits)

lemma loop_induct [case_names step]:
  assumes step: "\<And>qp cid items w.
     (\<And>qp1 rw page. qp1 = next_params configs fetchNew qp cid \<Longrightarrow>
        rw = fetch (api_request configs ''entries'' qp1 ''GET'' None) w \<Longrightarrow>
        page = page_of (fst rw) \<Longrightarrow> page \<noteq> [] \<Longrightarrow> limit \<le> total_of (fst rw) \<Longrightarrow>
        int (length (items @ page)) < fetchLimit configs \<Longrightarrow>
        P qp1 (Some (entry_id (last page))) (items @ page) (snd rw)) \<Longrightarrow>
     P qp cid items w"
  shows "P qp cid items (w :: 'w)"
proof (induction "nat (fetchLimit configs - int (length items))" arbitrary: qp cid items w
    rule: less_induct)
  case less
  show ?case
  proof (rule step)
    fix qp1 :: URLSearchParams and rw :: "Response option \<times> 'w" and page :: "Entry list"
    assume "page \<noteq> []" and "int (length (items @ page)) < fetchLimit configs"
    then have "nat (fetchLimit configs - int (length (items @ page)))
        < nat (fetchLimit configs - int (length items))"
      by (cases page) auto
    then show "P qp1 (Some (entry_id (last page))) (items @ page) (snd rw)"
      by (rule less)
  qed
qed

lemma fetchEntries_items:
  "fst (fetchEntries fetch configs queryParams fetchNew limit w) =
     fst (fetchEntries_loop fetch (normalised configs) fetchNew limit
            (set_param ''limit'' (String_num limit) queryParams) None [] w)"
  by (simp add: fetchEntries_def normalised_def cursor_def Let_def split: prod.splits)

lemma fetchEntries_configs:
  "fst (snd (fetchEntries fetch configs queryParams fetchNew limit w)) = normalised configs"
  by (simp add: fetchEntries_def normalised_def cursor_def Let_def split: prod.splits)

subsection \<open>The sample service honours the query parameters\<close>

lemma digit_value_digit: "d < 10 \<Longrightarrow> digit_value (digit d) = d"
proof -
  assume "d < 10"
  then have "d \<in> {0, 1, 2, 3, 4, 5, 6, 7, 8, 9}"
    by auto
  then show ?thesis
    by (auto simp: digit_value_def digit_def)
qed

lemma digit_not_minus: "d < 10 \<Longrightarrow> digit d \<noteq> CHR ''-''"
proof -
  assume "d < 10"
  then have "d \<in> {0, 1, 2, 3, 4, 5, 6, 7, 8, 9}"
    by auto
  then show ?thesis
    by (auto simp: digit_def)
qed

lemma nat_of_digits_snoc: "nat_of_digits (s @ [c]) = 10 * nat_of_digits s + digit_value c"
  by (simp add: nat_of_digits_def)

lemma nat_of_digits_digits: "nat_of_digits (digits n) = n"
proof (induction n rule: digits.induct)
  case (1 n)
  show ?case
  proof (cases "n < 10")
    case True
    then show ?thesis
      by (subst digits.simps) (simp add: nat_of_digits_def digit_value_digit)
  next
    case False
    then show ?thesis
      using 1 by (subst digits.simps) (simp add: nat_of_digits_snoc digit_value_digit)
  qed
qed

lemma digits_hd: "\<exists>d r. d < 10 \<and> digits n = digit d # r"
proof (induction n rule: digits.induct)
  case (1 n)
  show ?case
  proof (cases "n < 10")
    case True
    then show ?thesis
      by (subst digits.simps) auto
  next
    case False
    with 1 obtain d r where "d < 10" and "digits (n div 10) = digit d # r"
      by blast
    with False show ?thesis
      by (subst digits.simps) auto
  qed
qed

lemma num_of_String_num: "num_of (String_num n) = n"
proof -
  obtain d r where d: "d < 10" and r: "digits (nat n) = digit d # r"
    using digits_hd by blast
  have "nat_of_digits (digit d # r) = nat n"
    using nat_of_digits_digits [of "nat n"] r by simp
  then show ?thesis
    using d r digit_not_minus [OF d] nat_of_digits_digits [of "nat (- n)"]
    by (simp add: num_of_def String_num_def)
qed

lemma page_of_remote:
  "page_of (fst (remote ds req log)) =
     take (case get_param ''limit'' (query req) of None \<Rightarrow> 100 | Some s \<Rightarrow> nat (num_of s))
       (filter (matches (query req)) ds)"
  by (simp add: remote_def page_of_def Let_def)

lemma remote_honours_after: "honours_after (remote ds)"
  unfolding honours_after_def page_of_remote
  by (auto dest!: in_set_takeD simp: matches_def num_of_String_num)


lemma remote_honours_limit: "honours_limit (remote ds)"
  unfolding honours_limit_def page_of_remote
  by (auto simp: num_of_String_num)



lemma sample_run_pages:
  "map entry_id (fst (fetchEntries (remote sample_feed) (sample_configs\<lparr>lastId := Some 3\<rparr>)
     new_items_query True 2 [])) = [9, 8, 7, 6, 5, 4]"
  by code_simp



subsection \<open>Termination and the length of the result\<close>

lemma limit_next_params:
  "get_param ''limit'' (next_params configs fetchNew qp cid) = get_param ''limit'' qp"
  by (simp add: next_params_def get_set_param)

lemma loop_length:
  fixes fetch :: "'w fetch"
  assumes hl: "honours_limit fetch"
  shows "get_param ''limit'' qp = Some (String_num limit) \<Longrightarrow>
     int (length (fst (fetchEntries_loop fetch configs fetchNew limit qp cid items w)))
       \<le> max (int (length items)) (max (int (length items)) (fetchLimit configs - 1) + limit)"
proof (induction qp cid items w rule: loop_induct [where fetch = fetch and configs = configs
      and fetchNew = fetchNew and limit = limit])
  case (step qp cid items w)
  define qp1 where "qp1 = next_params configs fetchNew qp cid"
  define rw where "rw = fetch (api_request configs ''entries'' qp1 ''GET'' None) w"
  define page where "page = page_of (fst rw)"
  have lim: "get_param ''limit'' qp1 = Some (String_num limit)"
    using step.prems by (simp add: qp1_def limit_next_params)
  have pg: "page = [] \<or> int (length page) \<le> limit"
    using hl lim unfolding honours_limit_def page_def rw_def
    by (metis query_api_request)
  show ?case
  proof (cases "page = []")
    case True
    then show ?thesis
      by (subst loop_unfold) (simp add: Let_def qp1_def [symmetric] rw_def [symmetric] page_def [symmetric])
  next
    case False
    with pg have le: "int (length page) \<le> limit"
      by simp
    show ?thesis
    proof (cases "limit \<le> total_of (fst rw) \<and> int (length (items @ page)) < fetchLimit configs")
      case True
      then have "int (length (fst (fetchEntries_loop fetch configs fetchNew limit qp1
            (Some (entry_id (last page))) (items @ page) (snd rw))))
          \<le> max (int (length (items @ page)))
               (max (int (length (items @ page))) (fetchLimit configs - 1) + limit)"
        using step.IH [OF qp1_def rw_def page_def False _ _ lim] by simp
      with True False le show ?thesis
        by (subst loop_unfold)
           (simp add: Let_def qp1_def [symmetric] rw_def [symmetric] page_def [symmetric])
    next
      case no: False
      with False le show ?thesis
        by (subst loop_unfold)
           (auto simp add: Let_def qp1_def [symmetric] rw_def [symmetric] page_def [symmetric])
    qed
  qed
qed

text \<open>
  C1. \<open>fetchEntries\<close> terminates on every remote service: \<open>fetchEntries_loop\<close> is a
  total function, each further run of the body being entered with a longer accumulator
  that is still below the cap (the measure of its termination proof). When the cap is
  not negative and the service returns at most \<open>limit\<close> entries for a request with that
  limit, the result has at most the cap plus one page of entries, that is at most
  \<open>max cap (cap + limit)\<close>. Nothing is assumed of the ids in the pages.
\<close>

theorem fetchEntries_bounded:
  assumes "0 \<le> fetchLimit configs" and "honours_limit fetch"
  shows "int (length (fst (fetchEntries fetch configs queryParams fetchNew limit w)))
           \<le> max (fetchLimit configs) (fetchLimit configs + limit)"
proof -
  let ?q = "set_param ''limit'' (String_num limit) queryParams"
  have "int (length (fst (fetchEntries_loop fetch (normalised configs) fetchNew limit ?q None [] w)))
      \<le> max (int (length ([] :: Entry list)))
           (max (int (length ([] :: Entry list))) (fetchLimit (normalised configs) - 1) + limit)"
    by (rule loop_length [OF assms(2)]) (simp add: get_set_param)
  moreover have "fetchLimit (normalised configs) = fetchLimit configs"
    by (simp add: normalised_def)
  ultimately show ?thesis
    using assms(1) unfolding fetchEntries_items by simp
qed

theorem fetchEntries_bounded_witness:
  "0 \<le> fetchLimit (sample_configs\<lparr>lastId := Some 3\<rparr>) \<and>
   honours_limit (remote sample_feed) \<and>
   map entry_id (fst (fetchEntries (remote sample_feed) (sample_configs\<lparr>lastId := Some 3\<rparr>)
     new_items_query True 2 [])) = [9, 8, 7, 6, 5, 4] \<and>
   int (length (fst (fetchEntries (remote sample_feed) (sample_configs\<lparr>lastId := Some 3\<rparr>)
     new_items_query True 2 []))) \<le> max 5 (5 + 2)"
proof -
  have h: "0 \<le> fetchLimit (sample_configs\<lparr>lastId := Some 3\<rparr>)"
    by (simp add: sample_configs_def)
  have "int (length (fst (fetchEntries (remote sample_feed) (sample_configs\<lparr>lastId := Some 3\<rparr>)
     new_items_query True 2 []))) \<le> max 5 (5 + 2)"
    using fetchEntries_bounded [OF h remote_honours_limit, of sample_feed new_items_query True 2 "[]"]
    by (simp add: sample_configs_def)
  with h remote_honours_limit sample_run_pages show ?thesis
    by blast
qed

subsection \<open>Incremental mode returns only entries above the cursor\<close>

lemma after_next_params:
  assumes "lastId configs = Some c"
    and "truthy_num cid \<longrightarrow> get_param ''after_entry_id'' qp = Some (String_num c)"
  shows "get_param ''after_entry_id'' (next_params configs True qp cid) = Some (String_num c)"
  using assms by (simp add: next_params_def get_set_param String_opt_def)

lemma loop_after:
  fixes fetch :: "'w fetch"
  assumes ha: "honours_after fetch" and c: "lastId configs = Some c"
  shows "truthy_num cid \<longrightarrow> get_param ''after_entry_id'' qp = Some (String_num c) \<Longrightarrow>
     \<forall>e \<in> set items. c < entry_id e \<Longrightarrow>
     \<forall>e \<in> set (fst (fetchEntries_loop fetch configs True limit qp cid items w)). c < entry_id e"
proof (induction qp cid items w rule: loop_induct [where fetch = fetch and configs = configs
      and fetchNew = True and limit = limit])
  case (step qp cid items w)
  define qp1 where "qp1 = next_params configs True qp cid"
  define rw where "rw = fetch (api_request configs ''entries'' qp1 ''GET'' None) w"
  define page where "page = page_of (fst rw)"
  have aft: "get_param ''after_entry_id'' qp1 = Some (String_num c)"
    unfolding qp1_def using c step.prems(1) by (rule after_next_params)
  have pg: "\<forall>e \<in> set page. c < entry_id e"
    using ha aft unfolding honours_after_def page_def rw_def
    by (metis query_api_request)
  with step.prems(2) have all: "\<forall>e \<in> set (items @ page). c < entry_id e"
    by auto
  show ?case
  proof (cases "page \<noteq> [] \<and> limit \<le> total_of (fst rw) \<and>
      int (length (items @ page)) < fetchLimit configs")
    case True
    then have "\<forall>e \<in> set (fst (fetchEntries_loop fetch configs True limit qp1
        (Some (entry_id (last page))) (items @ page) (snd rw))). c < entry_id e"
      using step.IH [OF qp1_def rw_def page_def _ _ _ _ all] aft by simp
    with True show ?thesis
      by (subst loop_unfold)
         (simp add: Let_def qp1_def [symmetric] rw_def [symmetric] page_def [symmetric])
  next
    case False
    with all step.prems(2) show ?thesis
      by (subst loop_unfold)
         (auto simp add: Let_def qp1_def [symmetric] rw_def [symmetric] page_def [symmetric])
  qed
qed

text \<open>
  C3. In a \<open>fetchNew\<close> call against a service that honours \<open>after_entry_id\<close>, every
  returned entry has an id greater than the cursor the configuration had before the call
  (0 when it had none): every request of the call carries that cursor as
  \<open>after_entry_id\<close>.
\<close>

theorem fetchNew_after_cursor:
  assumes "honours_after fetch"
  shows "\<forall>e \<in> set (fst (fetchEntries fetch configs queryParams True limit w)).
           cursor configs < entry_id e"
proof -
  have "lastId (normalised configs) = Some (cursor configs)"
    by (simp add: normalised_def)
  then show ?thesis
    unfolding fetchEntries_items
    by (rule loop_after [OF assms]) (simp_all add: truthy_num_def)
qed

theorem fetchNew_after_cursor_witness:
  "honours_after (remote sample_feed) \<and>
   cursor (sample_configs\<lparr>lastId := Some 3\<rparr>) = 3 \<and>
   map entry_id (fst (fetchEntries (remote sample_feed) (sample_configs\<lparr>lastId := Some 3\<rparr>)
     new_items_query True 2 [])) = [9, 8, 7, 6, 5, 4] \<and>
   list_all (\<lambda>e. 3 < entry_id e)
     (fst (fetchEntries (remote sample_feed) (sample_configs\<lparr>lastId := Some 3\<rparr>)
        new_items_query True 2 []))"
proof -
  have c: "cursor (sample_configs\<lparr>lastId := Some 3\<rparr>) = 3"
    by (simp add: cursor_def)
  have "list_all (\<lambda>e. 3 < entry_id e)
     (fst (fetchEntries (remote sample_feed) (sample_configs\<lparr>lastId := Some 3\<rparr>)
        new_items_query True 2 []))"
    using fetchNew_after_cursor [OF remote_honours_after,
        of sample_feed "sample_configs\<lparr>lastId := Some 3\<rparr>" new_items_query 2 "[]"]
    unfolding c by (simp add: list_all_iff)
  with c remote_honours_after sample_run_pages show ?thesis
    by blast
qed

section \<open>Properties of the sync cycle\<close>

subsection \<open>The cursor after fetching new items\<close>










subsection \<open>The cursor after reading the remote state\<close>

lemma api_request_lastId [simp]:
  "api_request (configs\<lparr>lastId := x\<rparr>) path qs meth bdy = api_request configs path qs meth bdy"
  by (simp add: api_request_def)

lemma next_params_backlog [simp]:
  "next_params (configs\<lparr>lastId := x\<rparr>) False qp cid = next_params configs False qp cid"
  by (simp add: next_params_def)

lemma loop_backlog_cursor:
  fixes fetch :: "'w fetch"
  shows "fetchEntries_loop fetch (configs\<lparr>lastId := x\<rparr>) False limit qp cid items w =
         fetchEntries_loop fetch configs False limit qp cid items w"
proof (induction qp cid items w rule: loop_induct [where fetch = fetch and configs = configs
      and fetchNew = False and limit = limit])
  case (step qp cid items w)
  define qp1 where "qp1 = next_params configs False qp cid"
  define rw where "rw = fetch (api_request configs ''entries'' qp1 ''GET'' None) w"
  define page where "page = page_of (fst rw)"
  show ?case
  proof (cases "page \<noteq> [] \<and> limit \<le> total_of (fst rw) \<and>
      int (length (items @ page)) < fetchLimit configs")
    case True
    then have "fetchEntries_loop fetch (configs\<lparr>lastId := x\<rparr>) False limit qp1
          (Some (entry_id (last page))) (items @ page) (snd rw) =
        fetchEntries_loop fetch configs False limit qp1
          (Some (entry_id (last page))) (items @ page) (snd rw)"
      using step.IH [OF qp1_def rw_def page_def] by simp
    then show ?thesis
      by (subst (1 2) loop_unfold)
         (simp add: Let_def qp1_def [symmetric] rw_def [symmetric] page_def [symmetric])
  next
    case False
    then show ?thesis
      by (subst (1 2) loop_unfold)
         (auto simp add: Let_def qp1_def [symmetric] rw_def [symmetric] page_def [symmetric])
  qed
qed

lemma fetchEntries_backlog_cursor:
  "fetchEntries fetch (configs\<lparr>lastId := x\<rparr>) queryParams False limit w =
     (case fetchEntries fetch configs queryParams False limit w of
        (items, c, q, w') \<Rightarrow> (items, normalised (configs\<lparr>lastId := x\<rparr>), q, w'))"
proof -
  have "fetchEntries_loop fetch (configs\<lparr>lastId := Some (cursor (configs\<lparr>lastId := x\<rparr>))\<rparr>)
          False limit (set_param ''limit'' (String_num limit) queryParams) None [] w =
        fetchEntries_loop fetch (configs\<lparr>lastId := Some (cursor configs)\<rparr>)
          False limit (set_param ''limit'' (String_num limit) queryParams) None [] w"
    by (simp only: loop_backlog_cursor)
  then show ?thesis
    by (simp add: fetchEntries_def normalised_def cursor_def Let_def split: prod.splits)
qed

text \<open>
  C6, as the code has it. \<open>syncItems\<close> calls \<open>fetchEntries\<close> twice in backlog mode,
  and the first statement of \<open>fetchEntries\<close> reads the cursor and writes it back in
  both modes: a cursor that is present keeps its value, an absent one becomes 0. No
  other field of the configuration changes, and the cursor has no influence on the two
  sets that \<open>syncItems\<close> returns nor on what it does to the outside world. The commands
  on items take the configuration and do not return one: they have no assignment to it.
\<close>

theorem syncItems_cursor:
  "fst (snd (syncItems fetch configs w)) = configs\<lparr>lastId := Some (cursor configs)\<rparr> \<and>
   fst (syncItems fetch (configs\<lparr>lastId := x\<rparr>) w) = fst (syncItems fetch configs w) \<and>
   snd (snd (syncItems fetch (configs\<lparr>lastId := x\<rparr>) w)) = snd (snd (syncItems fetch configs w))"
proof -
  let ?p = "[(''status'', ''unread''), (''order'', ''id''), (''direction'', ''desc'')]"
  obtain a c q w' where r: "fetchEntries fetch configs ?p False 125 w = (a, c, q, w')"
    using prod_cases4 by blast
  then have c: "c = normalised configs"
    using fetchEntries_configs [of fetch configs ?p False 125 w] by simp
  let ?q = "append_param ''starred'' ''true''
      (delete_param ''before_entry_id'' (delete_param ''status'' q))"
  obtain a' c' q' w'' where
    r': "fetchEntries fetch c ?q False 125 w' = (a', c', q', w'')"
    using prod_cases4 by blast
  then have "c' = normalised c"
    using fetchEntries_configs [of fetch c ?q False 125 w'] by simp
  with c have c': "c' = configs\<lparr>lastId := Some (cursor configs)\<rparr>"
    by (simp add: normalised_def cursor_def)
  have s: "syncItems fetch configs w =
      ((set (map (\<lambda>entry. String_num (entry_id entry)) a),
        set (map (\<lambda>entry. String_num (entry_id entry)) a')), c', w'')"
    using r r' by (simp add: syncItems_def Let_def)
  have x1: "fetchEntries fetch (configs\<lparr>lastId := x\<rparr>) ?p False 125 w =
      (a, normalised (configs\<lparr>lastId := x\<rparr>), q, w')"
    using r by (simp add: fetchEntries_backlog_cursor)
  have "normalised (configs\<lparr>lastId := x\<rparr>) = c\<lparr>lastId := Some (cursor (configs\<lparr>lastId := x\<rparr>))\<rparr>"
    using c by (simp add: normalised_def)
  then have x2: "fetchEntries fetch (normalised (configs\<lparr>lastId := x\<rparr>)) ?q False 125 w' =
      (a', normalised (normalised (configs\<lparr>lastId := x\<rparr>)), q', w'')"
    using r' by (simp add: fetchEntries_backlog_cursor)
  have sx: "syncItems fetch (configs\<lparr>lastId := x\<rparr>) w =
      ((set (map (\<lambda>entry. String_num (entry_id entry)) a),
        set (map (\<lambda>entry. String_num (entry_id entry)) a')),
       normalised (normalised (configs\<lparr>lastId := x\<rparr>)), w'')"
    using x1 x2 by (simp add: syncItems_def Let_def)
  from s sx c' show ?thesis
    by simp
qed

text \<open>
  The claim C6 as it is written fails when the configuration has no cursor yet:
  \<open>syncItems\<close> writes 0.
\<close>

theorem syncItems_cursor_counterexample:
  "lastId sample_configs = None \<and>
   lastId (fst (snd (syncItems offline sample_configs ()))) = Some 0"
  by code_simp

subsection \<open>Rules that change the starred flag\<close>

lemma rule_calls_commands:
  "set (rule_calls item parsedItem) \<subseteq> {MarkRead parsedItem, MarkUnread parsedItem}"
  by (auto simp: rule_calls_def)

text \<open>
  C4 asks for a \<open>star\<close> or \<open>unstar\<close> command when the rules changed the starred flag.
  On an entry that the service reports as not starred and that a rule stars,
  \<open>fetchItems\<close> calls \<open>markUnread\<close> on the item, and neither \<open>star\<close> nor
  \<open>unstar\<close>.
\<close>

theorem starred_rule_calls_markUnread:
  "entry_starred (sample_entry 5) = False \<and>
   fst (fetchItems (remote [sample_entry 5]) sample_env [sample_source] sample_configs []) =
     Inr ([(sample_item (Some ''5''))\<lparr>starred := True\<rparr>],
          [MarkUnread ((sample_item (Some ''5''))\<lparr>starred := True\<rparr>)])"
  by code_simp

section \<open>Properties of the bulk command\<close>

lemma select_boundary:
  "select_refs store (date_predicates sids d True) = map Some (boundary_refs store sids d)"
  by (induction store)
     (auto simp: select_refs_def date_predicates_def boundary_refs_def)

lemma join_refs_Some: "join_refs (map Some xs) = comma_separated xs"
  by (induction xs rule: comma_separated.induct) simp_all

lemma set_boundary_refs:
  "set (boundary_refs store sids d) =
     {ref. \<exists>row \<in> set store. source row \<in> set sids \<and> hasRead row = False \<and>
        date row \<le> d \<and> serviceRef row = Some ref}"
  by (induction store) (auto simp: boundary_refs_def split: option.splits)

lemma spaces_16: "replicate (12 + 4) CHR '' '' = ''                ''"
  by code_simp

lemma spaces_12: "replicate 12 CHR '' '' = ''            ''"
  by code_simp

text \<open>
  C9. With a boundary date and \<open>before = true\<close>, \<open>markAllRead\<close> issues one request,
  \<open>PUT entries\<close>. Its body is the text below: the \<open>entry_ids\<close> array holds, with
  commas between them, the \<open>serviceRef\<close>s of the stored items that belong to the given
  sources, are unread, have a \<open>serviceRef\<close> and are dated at or before the boundary
  (the boundary included), in the order in which the database answers the query, and
  nothing else.
\<close>

theorem markAllRead_before_boundary:
  "markAllRead fetch sources store configs sids (Some d) True w =
     (case fetch (api_request configs ''entries'' [] ''PUT''
             (Some (''{'' @ [CHR 0x0A] @
                    ''                '' @ [CHR 0x22] @ ''entry_ids'' @ [CHR 0x22] @ '': ['' @
                      comma_separated (boundary_refs store sids d) @ ''],'' @ [CHR 0x0A] @
                    ''                '' @ [CHR 0x22] @ ''status'' @ [CHR 0x22] @ '': '' @
                      [CHR 0x22] @ ''read'' @ [CHR 0x22] @ [CHR 0x0A] @
                    ''            '' @ ''}''))) w of
        (None, w') \<Rightarrow> (Inl APIError, w')
      | (Some response, w') \<Rightarrow> (Inr (), w')) \<and>
   set (boundary_refs store sids d) =
     {ref. \<exists>row \<in> set store. source row \<in> set sids \<and> hasRead row = False \<and>
        date row \<le> d \<and> serviceRef row = Some ref}"
proof -
  have "status_body 12 (join_refs (select_refs store (date_predicates sids d True))) ''read'' =
      ''{'' @ [CHR 0x0A] @
      ''                '' @ [CHR 0x22] @ ''entry_ids'' @ [CHR 0x22] @ '': ['' @
        comma_separated (boundary_refs store sids d) @ ''],'' @ [CHR 0x0A] @
      ''                '' @ [CHR 0x22] @ ''status'' @ [CHR 0x22] @ '': '' @
        [CHR 0x22] @ ''read'' @ [CHR 0x22] @ [CHR 0x0A] @
      ''            '' @ ''}''"
    unfolding status_body_def spaces_16 spaces_12 select_boundary join_refs_Some
    by (simp add: dq_def nl_def)
  then show ?thesis
    by (simp add: markAllRead_def fetchAPI_def Let_def set_boundary_refs
        split: prod.splits option.splits)
qed

theorem markAllRead_before_boundary_witness:
  "markAllRead (recording 204) (Map.empty :: int \<rightharpoonup> unit RSSSource) sample_store sample_configs
     [1] (Some 10) True [] =
     (Inr (),
      [\<lparr>url = ''https://rss.example/v1/entries'', query = [], method' = ''PUT'',
        body = Some (''{'' @ [CHR 0x0A] @
                     ''                '' @ [CHR 0x22] @ ''entry_ids'' @ [CHR 0x22] @
                       '': [11,16],'' @ [CHR 0x0A] @
                     ''                '' @ [CHR 0x22] @ ''status'' @ [CHR 0x22] @ '': '' @
                       [CHR 0x22] @ ''read'' @ [CHR 0x22] @ [CHR 0x0A] @
                     ''            }''),
        headers = [(''content-type'', ''application/x-www-form-urlencoded''),
                   (''X-Auth-Token'', ''k'')]\<rparr>]) \<and>
   set (boundary_refs sample_store [1] 10) = {''11'', ''16''}"
proof -
  have refs: "boundary_refs sample_store [1] 10 = [''11'', ''16'']"
    by code_simp
  have req: "api_request sample_configs ''entries'' [] ''PUT'' (Some b) =
      \<lparr>url = ''https://rss.example/v1/entries'', query = [], method' = ''PUT'', body = Some b,
       headers = [(''content-type'', ''application/x-www-form-urlencoded''),
                  (''X-Auth-Token'', ''k'')]\<rparr>" for b
    by (simp add: api_request_def sample_configs_def endsWith_def)
  note t = markAllRead_before_boundary [of "recording 204" Map.empty sample_store
      sample_configs "[1]" 10 "[]", unfolded refs req]
  from t [THEN conjunct1] have
    "markAllRead (recording 204) (Map.empty :: int \<rightharpoonup> unit RSSSource) sample_store
       sample_configs [1] (Some 10) True [] =
     (Inr (),
      [\<lparr>url = ''https://rss.example/v1/entries'', query = [], method' = ''PUT'',
        body = Some (''{'' @ [CHR 0x0A] @
                     ''                '' @ [CHR 0x22] @ ''entry_ids'' @ [CHR 0x22] @
                       '': [11,16],'' @ [CHR 0x0A] @
                     ''                '' @ [CHR 0x22] @ ''status'' @ [CHR 0x22] @ '': '' @
                       [CHR 0x22] @ ''read'' @ [CHR 0x22] @ [CHR 0x0A] @
                     ''            }''),
        headers = [(''content-type'', ''application/x-www-form-urlencoded''),
                   (''X-Auth-Token'', ''k'')]\<rparr>])"
    by (simp add: recording_def)
  moreover have "set (boundary_refs sample_store [1] 10) = {''11'', ''16''}"
    unfolding refs by simp
  ultimately show ?thesis
    by (rule conjI)
qed

end
